theory Spec2Isabelle
  imports Main "HOL-Library.Char_ord" "HOL-Library.List_Lexorder"
begin

section \<open>JavaScript values\<close>

text \<open>
  The values that travel through the client are JSON values. An object is the list of
  its own properties in enumeration order (the order \<open>JSON.stringify\<close> walks them
  in), so two objects with the same properties in a different order are different
  terms. Numbers are restricted to the integers that print in plain decimal. A
  JavaScript value that may be \<open>undefined\<close> is a \<open>json option\<close>.
\<close>

datatype json =
    JNull
  | JBool bool
  | JNum int
  | JStr string
  | JArr "json list"
  | JObj "(string \<times> json) list"

text \<open>
  Structural equality of two values up to the order of the keys of their objects: arrays
  agree position by position, objects have the same keys (each once) and equal values
  under each key.
\<close>

fun json_equiv :: "json \<Rightarrow> json \<Rightarrow> bool" where
  "json_equiv (JArr xs) (JArr ys) = list_all2 json_equiv xs ys"
| "json_equiv (JObj xs) (JObj ys) =
     (distinct (map fst xs) \<and> distinct (map fst ys) \<and> set (map fst xs) = set (map fst ys) \<and>
      (\<forall>(k, v) \<in> set xs. case map_of ys k of None \<Rightarrow> False | Some w \<Rightarrow> json_equiv v w))"
| "json_equiv a b = (a = b)"

text \<open>
  What is thrown: an \<open>Error\<close> object built with a message, the engine's \<open>TypeError\<close>
  for a property read on \<open>undefined\<close> or \<open>null\<close>, or any other value a collaborator
  throws or rejects with. Of the last, only \<open>error.data.message\<close> is ever read.
  The argument of \<open>Rejected\<close> is \<open>None\<close> when \<open>data\<close> is absent,
  undefined or null, the values on which the read of \<open>message\<close> throws. It is
  \<open>Some m\<close> when \<open>data\<close> is an object, with \<open>m\<close> the string under its
  \<open>message\<close> property, \<open>None\<close> when that property is absent or undefined.
\<close>

datatype thrown =
    Error string
  | TypeError
  | Rejected "string option option"

fun data_of :: "thrown \<Rightarrow> string option option" where
  "data_of (Rejected d) = d"
| "data_of (Error m) = None"
| "data_of TypeError = None"

text \<open>\<open>new Error(m)\<close>: an undefined message gives the empty message.\<close>

definition new_Error :: "string option \<Rightarrow> thrown" where
  "new_Error m = Error (case m of None \<Rightarrow> [] | Some s \<Rightarrow> s)"

section \<open>The serialisers\<close>

text \<open>
  \<open>JSON.stringify\<close> (the built-in, used by \<open>createToken\<close> and for the content
  length) walks the properties of an object in their enumeration order.
  \<open>json-stable-stringify\<close> (used by \<open>createCivicExt\<close>) sorts the keys of every
  object with the default comparison of \<open>Array.prototype.sort\<close>, the lexicographic
  order on the code units, before it walks them. Strings are bytes here, so the model
  covers ASCII text.
\<close>

fun digits :: "nat \<Rightarrow> string" where
  "digits n = (if n < 10 then [char_of (48 + n)] else digits (n div 10) @ [char_of (48 + n mod 10)])"

definition number_toString :: "int \<Rightarrow> string" where
  "number_toString i = (if i < 0 then CHR ''-'' # digits (nat (- i)) else digits (nat i))"

fun join :: "string \<Rightarrow> string list \<Rightarrow> string" where
  "join sep [] = []"
| "join sep [x] = x"
| "join sep (x # y # ys) = x @ sep @ join sep (y # ys)"

definition hex2 :: "nat \<Rightarrow> string" where
  "hex2 n = [''0123456789abcdef'' ! (n div 16 mod 16), ''0123456789abcdef'' ! (n mod 16)]"

definition escape_char :: "char \<Rightarrow> string" where
  "escape_char c =
     (if c = CHR 0x22 then [CHR 0x5C, CHR 0x22]
      else if c = CHR 0x5C then [CHR 0x5C, CHR 0x5C]
      else if c = CHR 0x08 then [CHR 0x5C, CHR ''b'']
      else if c = CHR 0x0C then [CHR 0x5C, CHR ''f'']
      else if c = CHR 0x0A then [CHR 0x5C, CHR ''n'']
      else if c = CHR 0x0D then [CHR 0x5C, CHR ''r'']
      else if c = CHR 0x09 then [CHR 0x5C, CHR ''t'']
      else if (of_char c :: nat) < 32 then [CHR 0x5C, CHR ''u'', CHR ''0'', CHR ''0''] @ hex2 (of_char c)
      else [c])"

definition quote :: "string \<Rightarrow> string" where
  "quote s = [CHR 0x22] @ concat (map escape_char s) @ [CHR 0x22]"

fun JSON_stringify :: "json \<Rightarrow> string" where
  "JSON_stringify JNull = ''null''"
| "JSON_stringify (JBool b) = (if b then ''true'' else ''false'')"
| "JSON_stringify (JNum n) = number_toString n"
| "JSON_stringify (JStr s) = quote s"
| "JSON_stringify (JArr xs) = ''['' @ join '','' (map JSON_stringify xs) @ '']''"
| "JSON_stringify (JObj kvs) =
     ''{'' @ join '','' (map (\<lambda>(k, v). quote k @ '':'' @ JSON_stringify v) kvs) @ ''}''"

fun stable_stringify :: "json \<Rightarrow> string" where
  "stable_stringify (JArr xs) = ''['' @ join '','' (map stable_stringify xs) @ '']''"
| "stable_stringify (JObj kvs) =
     ''{'' @ join '','' (map (\<lambda>(k, v). quote k @ '':'' @ stable_stringify v) (sort_key fst kvs)) @ ''}''"
| "stable_stringify v = JSON_stringify v"

section \<open>The collaborators\<close>

text \<open>
  The key object of jsrsasign as \<open>jwt.js\<close> sets it up: the curve it was created
  for, the hexadecimal key it was given, and the two flags.
\<close>

record ECDSA =
  curve :: string
  prvKeyHex :: "string option"
  pubKeyHex :: "string option"
  isPrivate :: bool
  isPublic :: bool

text \<open>
  The options object of \<open>JWS.verifyJWT\<close>: the accepted algorithms, issuers, subjects
  and audiences, the time of verification, the grace period in seconds and the token
  id. A field that is not set is \<open>None\<close>.
\<close>

record acceptField =
  alg :: "string list option"
  iss :: "string list option"
  sub :: "string list option"
  aud :: "string list option"
  verifyAt :: "int option"
  gracePeriod :: "int option"
  jti :: "string option"

text \<open>What \<open>JWS.parse\<close> returns: the header and the claims, each an object or null.\<close>

record parsed =
  headerObj :: "(string \<times> json) list option"
  payloadObj :: "(string \<times> json) list option"

text \<open>The response envelope, the transport's response, and the request handed to it.\<close>

record envelope =
  data :: string
  encrypted :: bool

record response =
  status :: int
  resp_data :: envelope

record request =
  verb :: string
  path :: string
  headers :: "(string \<times> json) list"
  queryParams :: "(string \<times> json) list"
  body :: json

record additionalParams =
  add_headers :: "(string \<times> json) list"
  add_queryParams :: "(string \<times> json) list"

text \<open>
  The functions the two source files call and do not define: jsrsasign
  (\<open>JWS.sign\<close>, \<open>JWS.verifyJWT\<close>, \<open>JWS.parse\<close>), CryptoJS (\<open>HmacSHA256\<close>,
  \<open>enc.Base64.stringify\<close>), unix-timestamp (\<open>add\<close>), and the modules of the
  package that sit beside them (\<open>basicCrypto.decrypt\<close>, the URL template, the API
  gateway client). They are parameters of the model. A call that may throw returns a
  sum, \<open>Inl\<close> the value thrown. \<open>JWS.verifyJWT\<close> reads the clock: the parameter
  is its behaviour at the moment of the call.
\<close>

record lib =
  JWS_sign :: "string option \<Rightarrow> string \<Rightarrow> string \<Rightarrow> ECDSA \<Rightarrow> thrown + string"
  JWS_verifyJWT :: "string \<Rightarrow> ECDSA \<Rightarrow> acceptField \<Rightarrow> thrown + bool"
  JWS_parse :: "string \<Rightarrow> thrown + parsed"
  HmacSHA256 :: "string \<Rightarrow> string \<Rightarrow> string"
  Base64_stringify :: "string \<Rightarrow> string"
  timestamp_add :: "json \<Rightarrow> string \<Rightarrow> json"
  basicCrypto_decrypt :: "json option \<Rightarrow> string \<Rightarrow> thrown + json option"
  uritemplate_expand :: "string \<Rightarrow> (string \<times> json) list \<Rightarrow> string"
  parseParametersToObject :: "(string \<times> json) list \<Rightarrow> string list \<Rightarrow> (string \<times> json) list"
  makeRequest :: "request \<Rightarrow> string \<Rightarrow> additionalParams \<Rightarrow> thrown + response"

text \<open>
  What one call of \<open>createToken\<close> reads from its surroundings: the fresh identifier
  \<open>uuidV4()\<close> and the clock \<open>timestamp.now()\<close>.
\<close>

record readings =
  uuidV4 :: string
  timestamp_now :: json

section \<open>Calls as effects\<close>

text \<open>
  The calls that consume a token or reach the network are observable: each appends an
  event to a log. A computation takes the log so far and returns its outcome (\<open>Inl\<close>
  what it threw) with the log extended.
\<close>

datatype event =
    VerifyJWT string ECDSA acceptField
  | Parse string
  | Decrypt "json option" string
  | MakeRequest request string additionalParams

type_synonym 'a io = "event list \<Rightarrow> (thrown + 'a) \<times> event list"

definition return_io :: "'a \<Rightarrow> 'a io" where
  "return_io x = (\<lambda>t. (Inr x, t))"

definition throw_io :: "thrown \<Rightarrow> 'a io" where
  "throw_io e = (\<lambda>t. (Inl e, t))"

definition lift_io :: "thrown + 'a \<Rightarrow> 'a io" where
  "lift_io r = (\<lambda>t. (r, t))"

definition call_io :: "event \<Rightarrow> thrown + 'a \<Rightarrow> 'a io" where
  "call_io ev r = (\<lambda>t. (r, t @ [ev]))"

definition bind_io :: "'a io \<Rightarrow> ('a \<Rightarrow> 'b io) \<Rightarrow> 'b io" where
  "bind_io m f = (\<lambda>t. case m t of (Inl e, t') \<Rightarrow> (Inl e, t') | (Inr x, t') \<Rightarrow> f x t')"

definition catch_io :: "'a io \<Rightarrow> (thrown \<Rightarrow> 'a io) \<Rightarrow> 'a io" where
  "catch_io m h = (\<lambda>t. case m t of (Inl e, t') \<Rightarrow> h e t' | (Inr x, t') \<Rightarrow> (Inr x, t'))"

section \<open>lib/jwt.js\<close>

definition ALGO :: string where
  "ALGO = ''ES256''"

definition CURVE :: string where
  "CURVE = ''secp256r1''"

text \<open>The claims object of \<open>createToken\<close>, property by property in the source's order.\<close>

definition content :: "lib \<Rightarrow> readings \<Rightarrow> string \<Rightarrow> string \<Rightarrow> string \<Rightarrow> string \<Rightarrow> json \<Rightarrow> json" where
  "content L R issuer audience subject expiresIn payload =
     (let now = timestamp_now R;
          until = timestamp_add L now expiresIn
      in JObj [(''jti'', JStr (uuidV4 R)),
               (''iat'', now),
               (''exp'', until),
               (''iss'', JStr issuer),
               (''aud'', JStr audience),
               (''sub'', JStr subject),
               (''data'', payload)])"

definition header :: json where
  "header = JObj [(''alg'', JStr ALGO), (''typ'', JStr ''JWT'')]"

definition sHeader :: string where
  "sHeader = JSON_stringify header"

definition sContent :: "lib \<Rightarrow> readings \<Rightarrow> string \<Rightarrow> string \<Rightarrow> string \<Rightarrow> string \<Rightarrow> json \<Rightarrow> string" where
  "sContent L R issuer audience subject expiresIn payload =
     JSON_stringify (content L R issuer audience subject expiresIn payload)"

text \<open>The key objects: created for the curve, given the key, and flagged.\<close>

definition ECDSA_private :: "string \<Rightarrow> ECDSA" where
  "ECDSA_private prvhex =
     \<lparr>curve = CURVE, prvKeyHex = Some prvhex, pubKeyHex = None, isPrivate = True, isPublic = False\<rparr>"

definition ECDSA_public :: "string \<Rightarrow> ECDSA" where
  "ECDSA_public pubhex =
     \<lparr>curve = CURVE, prvKeyHex = None, pubKeyHex = Some pubhex, isPrivate = False, isPublic = True\<rparr>"

definition createToken ::
  "lib \<Rightarrow> readings \<Rightarrow> string \<Rightarrow> string \<Rightarrow> string \<Rightarrow> string \<Rightarrow> json \<Rightarrow> string \<Rightarrow> thrown + string" where
  "createToken L R issuer audience subject expiresIn payload prvhex =
     JWS_sign L None sHeader (sContent L R issuer audience subject expiresIn payload)
       (ECDSA_private prvhex)"

text \<open>
  \<open>merge(acceptable || {}, {alg: [ALGO]})\<close>. lodash documents \<open>merge\<close> as
  recursive: array and plain object properties are merged recursively, other values
  are overridden by assignment. So an array of the source is merged into an array of
  the destination index by index: the source's element is assigned at each index of the
  source, and the destination's elements beyond the source's length stay. A destination
  property that is not set receives a fresh array. The properties the source does not
  name are left as they are. The options are typed here, so the model covers a caller
  whose \<open>alg\<close>, when set, is an array of strings.
\<close>

fun merge_array :: "'a list \<Rightarrow> 'a list \<Rightarrow> 'a list" where
  "merge_array ts [] = ts"
| "merge_array [] (s # ss) = s # merge_array [] ss"
| "merge_array (t # ts) (s # ss) = s # merge_array ts ss"

definition no_options :: acceptField where
  "no_options = \<lparr>alg = None, iss = None, sub = None, aud = None, verifyAt = None,
                  gracePeriod = None, jti = None\<rparr>"

definition merge_alg :: "acceptField \<Rightarrow> string list \<Rightarrow> acceptField" where
  "merge_alg object src =
     object\<lparr>alg := Some (merge_array (case alg object of None \<Rightarrow> [] | Some ts \<Rightarrow> ts) src)\<rparr>"

definition options :: "acceptField option \<Rightarrow> acceptField" where
  "options acceptable =
     merge_alg (case acceptable of None \<Rightarrow> no_options | Some a \<Rightarrow> a) [ALGO]"

definition verify :: "lib \<Rightarrow> string \<Rightarrow> string \<Rightarrow> acceptField option \<Rightarrow> bool io" where
  "verify L token pubhex acceptable =
     call_io (VerifyJWT token (ECDSA_public pubhex) (options acceptable))
       (JWS_verifyJWT L token (ECDSA_public pubhex) (options acceptable))"

definition decode :: "lib \<Rightarrow> string \<Rightarrow> parsed io" where
  "decode L token = call_io (Parse token) (JWS_parse L token)"

definition createCivicExt :: "lib \<Rightarrow> json \<Rightarrow> string \<Rightarrow> string" where
  "createCivicExt L body' clientAccessSecret =
     (let bodyStr = stable_stringify body';
          hmacBuffer = HmacSHA256 L bodyStr clientAccessSecret
      in Base64_stringify L hmacBuffer)"

section \<open>index.js\<close>

definition JWT_EXPIRATION :: string where
  "JWT_EXPIRATION = ''3m''"

text \<open>
  The configuration object: a property that is not set is \<open>None\<close>. The client is
  what the closures of \<open>newClient\<close> capture once the configuration has passed the
  checks: the three credentials, the environment and the types after defaulting, the
  hosted service's base URL and public key, and the pieces of the invoke URL.
\<close>

record config =
  appId :: "string option"
  appSecret :: "string option"
  prvKey :: "string option"
  env :: "string option"
  api :: "string option"
  defaultContentType :: "string option"
  defaultAcceptType :: "string option"
  accessKey :: "string option"
  secretKey :: "string option"
  sessionToken :: "string option"
  region :: "string option"

record client =
  cl_appId :: string
  cl_appSecret :: string
  cl_prvKey :: string
  cl_env :: string
  cl_defaultContentType :: string
  cl_defaultAcceptType :: string
  cl_base_url :: string
  cl_hexpub :: string
  cl_endpoint :: string
  cl_pathComponent :: string
  cl_authType :: string

definition SIPHostedService_base_url :: string where
  "SIPHostedService_base_url = ''https://api.civic.com/sip/''"

definition SIPHostedService_hexpub :: string where
  "SIPHostedService_hexpub =
     ''049a45998638cfb3c4b211d72030d9ae8329a242db63bfb0076a54e7647370a8ac5708b57af6065805d5a6be72332620932dbb35e8d318fce18e7c980a0eb26aa1''"

text \<open>The configuration \<open>newClient\<close> substitutes for an undefined argument.\<close>

definition undefined_config :: config where
  "undefined_config =
     \<lparr>appId = Some [], appSecret = Some [], prvKey = Some [], env = Some ''prod'',
      api = None, defaultContentType = Some ''application/json'',
      defaultAcceptType = Some ''application/json'', accessKey = None, secretKey = None,
      sessionToken = None, region = None\<rparr>"

text \<open>\<open>!v\<close> for a value that is undefined or a string.\<close>

definition falsy :: "string option \<Rightarrow> bool" where
  "falsy v = (case v of None \<Rightarrow> True | Some s \<Rightarrow> s = [])"

definition endsWith :: "string \<Rightarrow> char \<Rightarrow> bool" where
  "endsWith s c = (case rev s of [] \<Rightarrow> False | x # _ \<Rightarrow> x = c)"

text \<open>
  The first group of the regular expression \<open>(^https?:\/\/[^\/]+)\<close> on the invoke
  URL: the scheme and the longest non-empty run of characters other than a slash after
  it; \<open>None\<close> when the expression does not match.
\<close>

definition exec_endpoint :: "string \<Rightarrow> string option" where
  "exec_endpoint url =
     (let scheme = (if take 8 url = ''https://'' then Some ''https://''
                    else if take 7 url = ''http://'' then Some ''http://'' else None)
      in case scheme of
           None \<Rightarrow> None
         | Some s \<Rightarrow>
             (let host = takeWhile (\<lambda>c. c \<noteq> CHR ''/'') (drop (length s) url)
              in if host = [] then None else Some (s @ host)))"

definition newClient :: "config option \<Rightarrow> thrown + client" where
  "newClient config' =
     (let config = (case config' of None \<Rightarrow> undefined_config | Some c \<Rightarrow> c)
      in if falsy (appId config) then Inl (Error ''Please supply your application ID.'')
         else if falsy (appSecret config) then Inl (Error ''Please supply your application secret.'')
         else if falsy (prvKey config) then Inl (Error ''Please supply your application private key.'')
         else
           (let config = (if falsy (env config) then config\<lparr>env := Some ''prod''\<rparr> else config);
                base_url =
                  (case api config of
                     None \<Rightarrow> SIPHostedService_base_url
                   | Some a \<Rightarrow>
                       if a = [] then SIPHostedService_base_url
                       else if \<not> endsWith a (CHR ''/'') then a @ ''/'' else a);
                config = (if defaultContentType config = None
                          then config\<lparr>defaultContentType := Some ''application/json''\<rparr> else config);
                config = (if defaultAcceptType config = None
                          then config\<lparr>defaultAcceptType := Some ''application/json''\<rparr> else config);
                invokeUrl = base_url @ the (env config)
            in case exec_endpoint invokeUrl of
                 None \<Rightarrow> Inl TypeError
               | Some endpoint \<Rightarrow>
                   (let pathComponent = drop (length endpoint) invokeUrl;
                        authType = (if \<not> falsy (accessKey config) \<and> \<not> falsy (secretKey config)
                                    then ''AWS_IAM'' else ''NONE'')
                    in Inr \<lparr>cl_appId = the (appId config),
                            cl_appSecret = the (appSecret config),
                            cl_prvKey = the (prvKey config),
                            cl_env = the (env config),
                            cl_defaultContentType = the (defaultContentType config),
                            cl_defaultAcceptType = the (defaultAcceptType config),
                            cl_base_url = base_url,
                            cl_hexpub = SIPHostedService_hexpub,
                            cl_endpoint = endpoint,
                            cl_pathComponent = pathComponent,
                            cl_authType = authType\<rparr>)))"

definition makeAuthorizationHeader ::
  "lib \<Rightarrow> readings \<Rightarrow> client \<Rightarrow> string \<Rightarrow> string \<Rightarrow> json \<Rightarrow> thrown + string" where
  "makeAuthorizationHeader L R cl targetPath targetMethod requestBody =
     (case createToken L R (cl_appId cl) (cl_base_url cl) (cl_appId cl) JWT_EXPIRATION
             (JObj [(''method'', JStr targetMethod), (''path'', JStr targetPath)]) (cl_prvKey cl) of
        Inl e \<Rightarrow> Inl e
      | Inr jwtToken \<Rightarrow>
          (let extension = createCivicExt L requestBody (cl_appSecret cl)
           in Inr (''Civic'' @ '' '' @ jwtToken @ ''.'' @ extension)))"

text \<open>\<open>decodedToken.payloadObj.data\<close>: a read on null throws.\<close>

definition payloadObj_data :: "parsed \<Rightarrow> thrown + json option" where
  "payloadObj_data decodedToken =
     (case payloadObj decodedToken of None \<Rightarrow> Inl TypeError | Some claims \<Rightarrow> Inr (map_of claims ''data''))"

definition verifyAndDecrypt :: "lib \<Rightarrow> client \<Rightarrow> envelope \<Rightarrow> json option io" where
  "verifyAndDecrypt L cl payload =
     (let token = data payload
      in bind_io (verify L token (cl_hexpub cl) (Some (no_options\<lparr>gracePeriod := Some 60\<rparr>)))
           (\<lambda>isValid.
              if \<not> isValid
              then throw_io (Error ''JWT Token containing encrypted data could not be verified'')
              else bind_io (decode L token)
                (\<lambda>decodedToken. bind_io (lift_io (payloadObj_data decodedToken))
                   (\<lambda>clearText.
                      if encrypted payload
                      then call_io (Decrypt clearText (cl_appSecret cl))
                             (basicCrypto_decrypt L clearText (cl_appSecret cl))
                      else return_io clearText))))"

text \<open>
  The \<open>try\<close> block of \<open>exchangeCode\<close> either returns from the function or leaves
  with \<open>errorObj\<close> assigned; so does its handler, unless the handler throws itself.
\<close>

datatype 'a completion = Return 'a | Assigned thrown

definition request_body :: "string \<Rightarrow> json" where
  "request_body jwtToken = JObj [(''authToken'', JStr jwtToken)]"

definition additionalParams :: "string \<Rightarrow> string \<Rightarrow> additionalParams" where
  "additionalParams jwtToken authHeader =
     (let contentLength = int (length (JSON_stringify (request_body jwtToken)))
      in \<lparr>add_headers = [(''Content-Length'', JNum contentLength),
                         (''Accept'', JStr ''*/*''),
                         (''Authorization'', JStr authHeader)],
          add_queryParams = []\<rparr>)"

definition scopeRequestAuthCodePostRequest :: "lib \<Rightarrow> client \<Rightarrow> string \<Rightarrow> request" where
  "scopeRequestAuthCodePostRequest L cl jwtToken =
     (let params = []
      in \<lparr>verb = ''POST'',
          path = cl_pathComponent cl @
                 uritemplate_expand L ''/scopeRequest/authCode'' (parseParametersToObject L params []),
          headers = parseParametersToObject L params [],
          queryParams = parseParametersToObject L params [],
          body = request_body jwtToken\<rparr>)"

text \<open>
  \<open>new Error('Error exchanging code for data: ', response.status)\<close> passes the status
  as a second argument of the constructor, which takes the message from the first.
\<close>

definition exchangeCode :: "lib \<Rightarrow> readings \<Rightarrow> client \<Rightarrow> string \<Rightarrow> json option io" where
  "exchangeCode L R cl jwtToken =
     bind_io (lift_io (makeAuthorizationHeader L R cl ''scopeRequest/authCode'' ''POST''
                         (request_body jwtToken)))
           (\<lambda>authHeader.
                 bind_io
                   (catch_io
                      (bind_io
                         (call_io (MakeRequest (scopeRequestAuthCodePostRequest L cl jwtToken)
                                     (cl_authType cl) (additionalParams jwtToken authHeader))
                            (makeRequest L (scopeRequestAuthCodePostRequest L cl jwtToken)
                               (cl_authType cl) (additionalParams jwtToken authHeader)))
                         (\<lambda>response.
                            if status response \<noteq> 200
                            then return_io (Assigned (new_Error (Some ''Error exchanging code for data: '')))
                            else bind_io (verifyAndDecrypt L cl (resp_data response))
                                   (\<lambda>v. return_io (Return v))))
                      (\<lambda>error.
                         case data_of error of
                           None \<Rightarrow> throw_io TypeError
                         | Some error_data \<Rightarrow> return_io (Assigned (new_Error error_data))))
                   (\<lambda>c. case c of Return v \<Rightarrow> return_io v | Assigned errorObj \<Rightarrow> throw_io errorObj))"

section \<open>Stand-ins for the collaborators\<close>

text \<open>
  To evaluate the client on concrete inputs the parameters need values. The stand-ins
  below make no claim about the real collaborators: the signer appends a fixed
  signature, the verifier accepts the one token \<open>signed\<close>, the parser returns one
  fixed claims object, the HMAC concatenates key and message, and the transport answers
  with status 403.
\<close>

definition stub_lib :: lib where
  "stub_lib =
     \<lparr>JWS_sign = (\<lambda>a h c k. Inr (h @ ''.'' @ c @ ''.sig'')),
      JWS_verifyJWT = (\<lambda>token key opts. Inr (token = ''signed'')),
      JWS_parse = (\<lambda>token. Inr \<lparr>headerObj = None, payloadObj = Some [(''data'', JStr ''cipher'')]\<rparr>),
      HmacSHA256 = (\<lambda>m k. k @ m),
      Base64_stringify = (\<lambda>s. s),
      timestamp_add = (\<lambda>n d. n),
      basicCrypto_decrypt = (\<lambda>d s. Inr (Some (JStr ''clear''))),
      uritemplate_expand = (\<lambda>t ps. t),
      parseParametersToObject = (\<lambda>ps ks. []),
      makeRequest = (\<lambda>req a p. Inr \<lparr>status = 403, resp_data = \<lparr>data = ''signed'', encrypted = True\<rparr>\<rparr>)\<rparr>"

definition stub_readings :: readings where
  "stub_readings = \<lparr>uuidV4 = ''id'', timestamp_now = JNum 0\<rparr>"

definition stub_config :: config where
  "stub_config =
     \<lparr>appId = Some ''app1'', appSecret = Some ''00'', prvKey = Some ''11'', env = None,
      api = None, defaultContentType = None, defaultAcceptType = None, accessKey = None,
      secretKey = None, sessionToken = None, region = None\<rparr>"

definition stub_client :: client where
  "stub_client =
     \<lparr>cl_appId = ''app1'', cl_appSecret = ''00'', cl_prvKey = ''11'', cl_env = ''prod'',
      cl_defaultContentType = ''application/json'', cl_defaultAcceptType = ''application/json'',
      cl_base_url = ''https://api.civic.com/sip/'', cl_hexpub = ''04'',
      cl_endpoint = ''https://api.civic.com'', cl_pathComponent = ''/sip/prod'',
      cl_authType = ''NONE''\<rparr>"

section \<open>Properties\<close>

subsection \<open>Auxiliary facts\<close>

lemmas io_defs = return_io_def throw_io_def lift_io_def call_io_def bind_io_def catch_io_def

lemma options_grace:
  "options (Some (no_options\<lparr>gracePeriod := Some 60\<rparr>)) =
     no_options\<lparr>alg := Some [''ES256''], gracePeriod := Some 60\<rparr>"
  by (simp add: options_def merge_alg_def no_options_def ALGO_def)

lemma sorted_keys_unique:
  assumes "distinct (map fst xs)" and "distinct (map fst ys)"
    and "set (map fst xs) = set (map fst ys)"
  shows "map fst (sort_key fst xs) = map fst (sort_key fst ys)"
proof (rule sorted_distinct_set_unique)
  show "sorted (map fst (sort_key fst xs))" by (rule sorted_sort_key)
  show "sorted (map fst (sort_key fst ys))" by (rule sorted_sort_key)
  show "distinct (map fst (sort_key fst xs))" using assms(1) by (simp add: distinct_map)
  show "distinct (map fst (sort_key fst ys))" using assms(2) by (simp add: distinct_map)
  show "set (map fst (sort_key fst xs)) = set (map fst (sort_key fst ys))"
    using assms(3) by simp
qed

lemma stable_stringify_equiv:
  "json_equiv a b \<Longrightarrow> stable_stringify a = stable_stringify b"
proof (induction a b rule: json_equiv.induct)
  case (1 xs ys)
  from "1.prems" have len: "length xs = length ys"
    and el: "\<And>i. i < length xs \<Longrightarrow> json_equiv (xs ! i) (ys ! i)"
    by (simp_all add: list_all2_conv_all_nth)
  have "map stable_stringify xs = map stable_stringify ys"
  proof (rule nth_equalityI)
    show "length (map stable_stringify xs) = length (map stable_stringify ys)"
      using len by simp
  next
    fix i assume "i < length (map stable_stringify xs)"
    then have i: "i < length xs" "i < length ys" using len by simp_all
    have "stable_stringify (xs ! i) = stable_stringify (ys ! i)"
      using "1.IH" [of "xs ! i" "ys ! i"] i el [of i] by simp
    with i show "map stable_stringify xs ! i = map stable_stringify ys ! i" by simp
  qed
  then show ?case by simp
next
  case (2 xs ys)
  let ?g = "\<lambda>(k, v). quote k @ '':'' @ stable_stringify v"
  let ?sx = "sort_key fst xs" and ?sy = "sort_key fst ys"
  from "2.prems" have dx: "distinct (map fst xs)" and dy: "distinct (map fst ys)"
    and ks: "set (map fst xs) = set (map fst ys)"
    and all: "\<forall>(k, v) \<in> set xs. case map_of ys k of None \<Rightarrow> False | Some w \<Rightarrow> json_equiv v w"
    by simp_all
  have vs: "\<exists>w. map_of ys k = Some w \<and> json_equiv v w" if "(k, v) \<in> set xs" for k v
    using bspec [OF all that] by (cases "map_of ys k") simp_all
  have keys: "map fst ?sx = map fst ?sy" by (rule sorted_keys_unique [OF dx dy ks])
  then have len: "length ?sx = length ?sy" by (metis length_map)
  have "map ?g ?sx = map ?g ?sy"
  proof (rule nth_equalityI)
    show "length (map ?g ?sx) = length (map ?g ?sy)" using len by simp
  next
    fix i assume "i < length (map ?g ?sx)"
    then have i: "i < length ?sx" "i < length ?sy" using len by simp_all
    obtain k v where kv: "?sx ! i = (k, v)" by (cases "?sx ! i")
    obtain k' w where kw: "?sy ! i = (k', w)" by (cases "?sy ! i")
    have "map fst ?sx ! i = map fst ?sy ! i" using keys by simp
    with i kv kw have kk: "k' = k" by simp
    have "(k, v) \<in> set ?sx" using i(1) kv by (metis nth_mem)
    then have inx: "(k, v) \<in> set xs" by simp
    have "(k, w) \<in> set ?sy" using i(2) kw kk by (metis nth_mem)
    then have "(k, w) \<in> set ys" by simp
    with dy have mw: "map_of ys k = Some w" by simp
    from vs [OF inx] mw have "json_equiv v w" by simp
    with "2.IH" [OF inx refl mw] have "stable_stringify v = stable_stringify w" by simp
    with i kv kw kk show "map ?g ?sx ! i = map ?g ?sy ! i" by simp
  qed
  then show ?case by simp
qed simp_all

lemma exchangeCode_after_request:
  assumes "makeAuthorizationHeader L R cl ''scopeRequest/authCode'' ''POST'' (request_body tok) = Inr authHeader"
  shows "exchangeCode L R cl tok [] =
     (case makeRequest L (scopeRequestAuthCodePostRequest L cl tok) (cl_authType cl)
             (additionalParams tok authHeader) of
        Inl e \<Rightarrow>
          (case data_of e of
             None \<Rightarrow> (Inl TypeError, [MakeRequest (scopeRequestAuthCodePostRequest L cl tok)
                           (cl_authType cl) (additionalParams tok authHeader)])
           | Some m \<Rightarrow> (Inl (new_Error m), [MakeRequest (scopeRequestAuthCodePostRequest L cl tok)
                           (cl_authType cl) (additionalParams tok authHeader)]))
      | Inr response \<Rightarrow>
          if status response \<noteq> 200
          then (Inl (Error ''Error exchanging code for data: ''),
                [MakeRequest (scopeRequestAuthCodePostRequest L cl tok)
                   (cl_authType cl) (additionalParams tok authHeader)])
          else (case verifyAndDecrypt L cl (resp_data response)
                       [MakeRequest (scopeRequestAuthCodePostRequest L cl tok)
                          (cl_authType cl) (additionalParams tok authHeader)] of
                  (Inr v, t) \<Rightarrow> (Inr v, t)
                | (Inl e, t) \<Rightarrow>
                    (case data_of e of None \<Rightarrow> (Inl TypeError, t) | Some m \<Rightarrow> (Inl (new_Error m), t))))"
  using assms
  by (auto simp: exchangeCode_def io_defs new_Error_def split: sum.splits option.splits prod.splits)

lemma stub_header:
  "makeAuthorizationHeader (stub_lib\<lparr>makeRequest := f\<rparr>) stub_readings stub_client
     ''scopeRequest/authCode'' ''POST'' (request_body ''code'') =
   Inr (''Civic '' @ sHeader @ ''.'' @
        sContent stub_lib stub_readings ''app1'' ''https://api.civic.com/sip/'' ''app1'' ''3m''
          (JObj [(''method'', JStr ''POST''), (''path'', JStr ''scopeRequest/authCode'')]) @
        ''.sig.00'' @ stable_stringify (request_body ''code''))"
  by (simp add: makeAuthorizationHeader_def createToken_def createCivicExt_def stub_lib_def
      stub_client_def JWT_EXPIRATION_def sContent_def content_def)

lemma newClient_None: "newClient None = Inl (Error ''Please supply your application ID.'')"
  by (simp add: newClient_def undefined_config_def falsy_def)

lemma newClient_invalid:
  assumes "falsy (appId c) \<or> falsy (appSecret c) \<or> falsy (prvKey c)"
  shows "newClient (Some c) \<in> {Inl (Error ''Please supply your application ID.''),
                          Inl (Error ''Please supply your application secret.''),
                          Inl (Error ''Please supply your application private key.'')}"
proof (cases "falsy (appId c)")
  case True
  then show ?thesis by (simp add: newClient_def)
next
  case a: False
  show ?thesis
  proof (cases "falsy (appSecret c)")
    case True
    with a show ?thesis by (simp add: newClient_def)
  next
    case False
    with a assms have "falsy (prvKey c)" by simp
    with a False show ?thesis by (simp add: newClient_def)
  qed
qed

lemma newClient_valid:
  assumes "\<not> falsy (appId c)" "\<not> falsy (appSecret c)" "\<not> falsy (prvKey c)"
  shows "newClient (Some c) =
     (let base_url = (case api c of None \<Rightarrow> SIPHostedService_base_url
                      | Some a \<Rightarrow> if a = [] then SIPHostedService_base_url
                                  else if \<not> endsWith a (CHR ''/'') then a @ ''/'' else a);
          env' = (if falsy (env c) then ''prod'' else the (env c));
          invokeUrl = base_url @ env'
      in case exec_endpoint invokeUrl of
           None \<Rightarrow> Inl TypeError
         | Some endpoint \<Rightarrow>
             Inr \<lparr>cl_appId = the (appId c), cl_appSecret = the (appSecret c),
                  cl_prvKey = the (prvKey c), cl_env = env',
                  cl_defaultContentType =
                    (case defaultContentType c of None \<Rightarrow> ''application/json'' | Some t \<Rightarrow> t),
                  cl_defaultAcceptType =
                    (case defaultAcceptType c of None \<Rightarrow> ''application/json'' | Some t \<Rightarrow> t),
                  cl_base_url = base_url, cl_hexpub = SIPHostedService_hexpub,
                  cl_endpoint = endpoint, cl_pathComponent = drop (length endpoint) invokeUrl,
                  cl_authType = (if \<not> falsy (accessKey c) \<and> \<not> falsy (secretKey c)
                                 then ''AWS_IAM'' else ''NONE'')\<rparr>)"
  using assms
  apply (simp only: newClient_def Let_def option.case if_False)
  apply (cases "falsy (env c)"; cases "defaultContentType c"; cases "defaultAcceptType c")
         apply (simp_all split: option.split)
  done

lemma exec_endpoint_default:
  "exec_endpoint (SIPHostedService_base_url @ e) = Some ''https://api.civic.com''"
  by (simp add: exec_endpoint_def SIPHostedService_base_url_def)

lemma merge_array_single: "merge_array ts [a] = [a] \<longleftrightarrow> length ts \<le> 1"
  by (cases ts) auto

lemma options_alg_forced:
  "alg (options acceptable) = Some [''ES256''] \<longleftrightarrow>
     (case acceptable of None \<Rightarrow> True
      | Some a \<Rightarrow> (case alg a of None \<Rightarrow> True | Some ts \<Rightarrow> length ts \<le> 1))"
  by (simp add: options_def merge_alg_def no_options_def ALGO_def merge_array_single
      split: option.splits)

subsection \<open>The payload unwrapper verifies before it decrypts\<close>

text \<open>
  C1, as amended. \<open>verifyAndDecrypt\<close> starts with the call of the verifier on
  \<open>payload.data\<close> under the service's public key, with the accepted algorithm ES256
  and a grace period of 60 seconds; this call is the first entry it adds to the log.
  Unless that call returns true nothing follows it: no parse, no decryption, and the
  operation fails. When the call returns false the failure is the error
  \<open>JWT Token containing encrypted data could not be verified\<close>; when the call
  throws, the failure is the value it threw. So a decryption in the log implies that
  the verification returned true before it.
\<close>

theorem verifyAndDecrypt_verifies_first:
  assumes run: "verifyAndDecrypt L cl payload t0 = (r, t)"
    and v: "v = JWS_verifyJWT L (data payload) (ECDSA_public (cl_hexpub cl))
                  (no_options\<lparr>alg := Some [''ES256''], gracePeriod := Some 60\<rparr>)"
  shows "(\<exists>rest. t = t0 @ VerifyJWT (data payload) (ECDSA_public (cl_hexpub cl))
                          (no_options\<lparr>alg := Some [''ES256''], gracePeriod := Some 60\<rparr>) # rest
            \<and> (v \<noteq> Inr True \<longrightarrow> rest = [])
            \<and> (\<forall>c s. Decrypt c s \<in> set rest \<longrightarrow> v = Inr True))
         \<and> (v \<noteq> Inr True \<longrightarrow> isl r)
         \<and> (v = Inr False \<longrightarrow>
              r = Inl (Error ''JWT Token containing encrypted data could not be verified''))
         \<and> (\<forall>e. v = Inl e \<longrightarrow> r = Inl e)"
proof -
  let ?call = "JWS_verifyJWT L (data payload) (ECDSA_public (cl_hexpub cl))
                 (no_options\<lparr>alg := Some [''ES256''], gracePeriod := Some 60\<rparr>)"
  show ?thesis
  proof (cases v)
    case (Inl e)
    with v have "?call = Inl e" by simp
    with run Inl show ?thesis
      by (auto simp: verifyAndDecrypt_def verify_def options_grace io_defs Let_def)
  next
    case (Inr ok)
    with v have eq: "?call = Inr ok" by simp
    show ?thesis
    proof (cases ok)
      case False
      with eq run Inr show ?thesis
        by (auto simp: verifyAndDecrypt_def verify_def options_grace io_defs Let_def)
    next
      case True
      with eq run Inr show ?thesis
        by (auto simp: verifyAndDecrypt_def verify_def decode_def options_grace io_defs Let_def
            split: sum.splits if_splits)
    qed
  qed
qed

text \<open>The theorem at a forged token: the verifier is called, and nothing else.\<close>

theorem verifyAndDecrypt_verifies_first_witness:
  "verifyAndDecrypt stub_lib stub_client \<lparr>data = ''forged'', encrypted = True\<rparr> [] =
     (Inl (Error ''JWT Token containing encrypted data could not be verified''),
      [VerifyJWT ''forged'' (ECDSA_public ''04'')
         (no_options\<lparr>alg := Some [''ES256''], gracePeriod := Some 60\<rparr>)])
   \<and> JWS_verifyJWT stub_lib ''forged'' (ECDSA_public ''04'')
         (no_options\<lparr>alg := Some [''ES256''], gracePeriod := Some 60\<rparr>) = Inr False"
proof -
  let ?p = "\<lparr>data = ''forged'', encrypted = True\<rparr>"
  obtain r t where run: "verifyAndDecrypt stub_lib stub_client ?p [] = (r, t)"
    by (cases "verifyAndDecrypt stub_lib stub_client ?p []")
  have v: "Inr False = JWS_verifyJWT stub_lib (data ?p) (ECDSA_public (cl_hexpub stub_client))
             (no_options\<lparr>alg := Some [''ES256''], gracePeriod := Some 60\<rparr>)"
    by (simp add: stub_lib_def)
  from verifyAndDecrypt_verifies_first [OF run v] run v show ?thesis
    by (auto simp: stub_client_def)
qed

text \<open>
  C1 as stated fails on the error of one case: when the verifier itself throws (as
  jsrsasign does on a token it cannot split or decode), \<open>verifyAndDecrypt\<close> has no
  handler around the call, and what surfaces is the value thrown, not the error
  \<open>JWT Token containing encrypted data could not be verified\<close>. Nothing is decrypted
  there either.
\<close>

theorem verifyAndDecrypt_verifier_throws:
  "verifyAndDecrypt (stub_lib\<lparr>JWS_verifyJWT := (\<lambda>token key opts. Inl TypeError)\<rparr>) stub_client
     \<lparr>data = ''malformed'', encrypted = True\<rparr> [] =
     (Inl TypeError,
      [VerifyJWT ''malformed'' (ECDSA_public ''04'')
         (no_options\<lparr>alg := Some [''ES256''], gracePeriod := Some 60\<rparr>)])
   \<and> Inl TypeError \<noteq>
       (Inl (Error ''JWT Token containing encrypted data could not be verified'') :: thrown + json option)"
  by (simp add: verifyAndDecrypt_def verify_def options_grace io_defs Let_def stub_lib_def
      stub_client_def)

subsection \<open>Which serialiser is used where\<close>

text \<open>
  C3, as amended. The extension generator serialises the request body with the
  key-sorting serialiser, so two bodies that are structurally equal up to the order of
  their keys give the same bytes. The signer encodes the header and the claims object
  with the plain \<open>JSON.stringify\<close>, which writes the properties of an object in
  their enumeration order.
\<close>

theorem serialisers_by_use:
  "createCivicExt L b secret = Base64_stringify L (HmacSHA256 L (stable_stringify b) secret)
   \<and> (json_equiv b b' \<longrightarrow> stable_stringify b = stable_stringify b')
   \<and> createToken L R issuer audience subject expiresIn P prvhex =
       JWS_sign L None (JSON_stringify header)
         (JSON_stringify (content L R issuer audience subject expiresIn P)) (ECDSA_private prvhex)
   \<and> JSON_stringify (JObj kvs) =
       ''{'' @ join '','' (map (\<lambda>(k, v). quote k @ '':'' @ JSON_stringify v) kvs) @ ''}''"
  by (simp add: createCivicExt_def createToken_def sHeader_def sContent_def stable_stringify_equiv)

theorem serialisers_by_use_witness:
  "json_equiv (JObj [(''b'', JStr ''1''), (''a'', JStr ''2'')]) (JObj [(''a'', JStr ''2''), (''b'', JStr ''1'')])
   \<and> stable_stringify (JObj [(''b'', JStr ''1''), (''a'', JStr ''2'')]) =
     stable_stringify (JObj [(''a'', JStr ''2''), (''b'', JStr ''1'')])"
proof -
  have e: "json_equiv (JObj [(''b'', JStr ''1''), (''a'', JStr ''2'')]) (JObj [(''a'', JStr ''2''), (''b'', JStr ''1'')])"
    by auto
  from serialisers_by_use [of stub_lib "JObj [(''b'', JStr ''1''), (''a'', JStr ''2'')]" "''00''"
      "JObj [(''a'', JStr ''2''), (''b'', JStr ''1'')]"] e
  show ?thesis by blast
qed

text \<open>
  C3 as stated fails: two payloads that are structurally equal, with their keys in a
  different order, give different claims bytes in the signer.
\<close>

theorem claims_bytes_follow_key_order:
  "json_equiv (JObj [(''b'', JStr ''1''), (''a'', JStr ''2'')]) (JObj [(''a'', JStr ''2''), (''b'', JStr ''1'')])
   \<and> sContent stub_lib stub_readings ''app1'' ''https://api.civic.com/sip/'' ''app1'' ''3m''
        (JObj [(''b'', JStr ''1''), (''a'', JStr ''2'')]) \<noteq>
     sContent stub_lib stub_readings ''app1'' ''https://api.civic.com/sip/'' ''app1'' ''3m''
        (JObj [(''a'', JStr ''2''), (''b'', JStr ''1'')])"
proof -
  have "json_equiv (JObj [(''b'', JStr ''1''), (''a'', JStr ''2'')]) (JObj [(''a'', JStr ''2''), (''b'', JStr ''1'')])"
    by auto
  moreover have "sContent stub_lib stub_readings ''app1'' ''https://api.civic.com/sip/'' ''app1'' ''3m''
        (JObj [(''b'', JStr ''1''), (''a'', JStr ''2'')]) \<noteq>
     sContent stub_lib stub_readings ''app1'' ''https://api.civic.com/sip/'' ''app1'' ''3m''
        (JObj [(''a'', JStr ''2''), (''b'', JStr ''1'')])"
    by (simp add: sContent_def content_def stub_lib_def stub_readings_def quote_def escape_char_def
        number_toString_def Let_def)
  ultimately show ?thesis by simp
qed

subsection \<open>The failure branch of the exchange\<close>

text \<open>
  C4. A transport error whose \<open>data\<close> is absent (a network failure, say) makes the
  handler read \<open>message\<close> of \<open>undefined\<close>: in
  \<open>'Error exchanging code for data: ' + error.data && error.data.message\<close> the sum
  binds tighter than the conjunction, so the guard is a string that is always true.
  What surfaces is the engine's \<open>TypeError\<close>, not the \<open>Error\<close> that
  \<open>exchangeCode\<close> builds.
\<close>

theorem exchangeCode_TypeError:
  "fst (exchangeCode (stub_lib\<lparr>makeRequest := (\<lambda>req a p. Inl (Rejected None))\<rparr>)
          stub_readings stub_client ''code'' []) = Inl TypeError"
  by (simp add: exchangeCode_after_request [OF stub_header])

text \<open>
  What does hold on the failure branch. Once the request has been built, a response with
  a status other than 200 and a transport error both make \<open>exchangeCode\<close> fail, and
  the log then holds the request alone: the verifier, the parser and the decryption are
  never called. On a status other than 200 the failure is the \<open>Error\<close> with the
  fixed prefix; on a transport error whose \<open>data\<close> is an object it is the
  \<open>Error\<close> built from the message of that object.
\<close>

lemma exchangeCode_failure:
  assumes hdr: "makeAuthorizationHeader L R cl ''scopeRequest/authCode'' ''POST'' (request_body tok) = Inr authHeader"
    and out: "makeRequest L (scopeRequestAuthCodePostRequest L cl tok) (cl_authType cl)
                (additionalParams tok authHeader) = outcome"
    and fail: "case outcome of Inl e \<Rightarrow> True | Inr response \<Rightarrow> status response \<noteq> 200"
  shows "isl (fst (exchangeCode L R cl tok []))
       \<and> snd (exchangeCode L R cl tok []) =
           [MakeRequest (scopeRequestAuthCodePostRequest L cl tok) (cl_authType cl)
              (additionalParams tok authHeader)]
       \<and> (\<forall>response. outcome = Inr response \<longrightarrow>
             fst (exchangeCode L R cl tok []) = Inl (Error ''Error exchanging code for data: ''))
       \<and> (\<forall>e m. outcome = Inl e \<and> data_of e = Some m \<longrightarrow>
             fst (exchangeCode L R cl tok []) = Inl (new_Error m))"
  using out fail unfolding exchangeCode_after_request [OF hdr]
  by (cases outcome) (auto split: option.splits)

lemma exchangeCode_failure_at_stub:
  "fst (exchangeCode (stub_lib\<lparr>makeRequest := (\<lambda>req a p. Inr \<lparr>status = 403, resp_data = \<lparr>data = ''signed'', encrypted = True\<rparr>\<rparr>)\<rparr>)
          stub_readings stub_client ''code'' []) = Inl (Error ''Error exchanging code for data: '')
   \<and> fst (exchangeCode (stub_lib\<lparr>makeRequest := (\<lambda>req a p. Inl (Rejected (Some (Some ''Forbidden''))))\<rparr>)
          stub_readings stub_client ''code'' []) = Inl (Error ''Forbidden'')"
proof -
  let ?f = "\<lambda>(req :: request) (a :: string) (p :: additionalParams).
              (Inr \<lparr>status = 403, resp_data = \<lparr>data = ''signed'', encrypted = True\<rparr>\<rparr> :: thrown + response)"
  let ?g = "\<lambda>(req :: request) (a :: string) (p :: additionalParams).
              (Inl (Rejected (Some (Some ''Forbidden''))) :: thrown + response)"
  have "fst (exchangeCode (stub_lib\<lparr>makeRequest := ?f\<rparr>) stub_readings stub_client ''code'' []) =
          Inl (Error ''Error exchanging code for data: '')"
    using exchangeCode_failure [OF stub_header [of ?f] refl] by simp
  moreover have "fst (exchangeCode (stub_lib\<lparr>makeRequest := ?g\<rparr>) stub_readings stub_client ''code'' []) =
          Inl (Error ''Forbidden'')"
    using exchangeCode_failure [OF stub_header [of ?g] refl] by (simp add: new_Error_def)
  ultimately show ?thesis by simp
qed

text \<open>
  C5. The error for a status other than 200 does not carry the status: the responses
  403 and 500 surface the same \<open>Error\<close>, whose message is the fixed prefix.
\<close>

theorem exchangeCode_status_dropped:
  "fst (exchangeCode (stub_lib\<lparr>makeRequest := (\<lambda>req a p. Inr \<lparr>status = 403, resp_data = \<lparr>data = ''signed'', encrypted = True\<rparr>\<rparr>)\<rparr>)
          stub_readings stub_client ''code'' []) = Inl (Error ''Error exchanging code for data: '')
   \<and> fst (exchangeCode (stub_lib\<lparr>makeRequest := (\<lambda>req a p. Inr \<lparr>status = 500, resp_data = \<lparr>data = ''signed'', encrypted = True\<rparr>\<rparr>)\<rparr>)
          stub_readings stub_client ''code'' []) = Inl (Error ''Error exchanging code for data: '')"
  by (simp add: exchangeCode_after_request [OF stub_header])

subsection \<open>The authorization header\<close>

text \<open>
  C6. The header is \<open>Civic\<close>, a space, the assertion token, a dot and the extension
  tag (and building it fails as the signer fails). The token is signed over the header
  \<open>{alg: ES256, typ: JWT}\<close> and the claims with issuer and subject the application
  id, audience the service's base URL, expiry three minutes and data
  \<open>{method, path}\<close>, under the application's private key; the extension is the
  Base64 of the HMAC-SHA256, keyed by the application secret, of the sorted
  serialisation of the body.
\<close>

theorem makeAuthorizationHeader_format:
  "makeAuthorizationHeader L R cl p m b =
     (case createToken L R (cl_appId cl) (cl_base_url cl) (cl_appId cl) ''3m''
             (JObj [(''method'', JStr m), (''path'', JStr p)]) (cl_prvKey cl) of
        Inl e \<Rightarrow> Inl e
      | Inr assertionToken \<Rightarrow>
          Inr (''Civic '' @ assertionToken @ ''.'' @ createCivicExt L b (cl_appSecret cl)))
   \<and> createToken L R (cl_appId cl) (cl_base_url cl) (cl_appId cl) ''3m''
        (JObj [(''method'', JStr m), (''path'', JStr p)]) (cl_prvKey cl) =
      JWS_sign L None (JSON_stringify (JObj [(''alg'', JStr ''ES256''), (''typ'', JStr ''JWT'')]))
        (JSON_stringify
           (JObj [(''jti'', JStr (uuidV4 R)),
                  (''iat'', timestamp_now R),
                  (''exp'', timestamp_add L (timestamp_now R) ''3m''),
                  (''iss'', JStr (cl_appId cl)),
                  (''aud'', JStr (cl_base_url cl)),
                  (''sub'', JStr (cl_appId cl)),
                  (''data'', JObj [(''method'', JStr m), (''path'', JStr p)])]))
        (ECDSA_private (cl_prvKey cl))
   \<and> createCivicExt L b (cl_appSecret cl) =
      Base64_stringify L (HmacSHA256 L (stable_stringify b) (cl_appSecret cl))"
  by (simp add: makeAuthorizationHeader_def createToken_def createCivicExt_def JWT_EXPIRATION_def
      sHeader_def header_def sContent_def content_def ALGO_def Let_def split: sum.splits)

theorem makeAuthorizationHeader_format_witness:
  "makeAuthorizationHeader stub_lib stub_readings stub_client ''scopeRequest/authCode'' ''POST''
     (JObj [(''authToken'', JStr ''abc'')]) =
   Inr (''Civic '' @ JSON_stringify (JObj [(''alg'', JStr ''ES256''), (''typ'', JStr ''JWT'')]) @ ''.'' @
        JSON_stringify
           (JObj [(''jti'', JStr ''id''), (''iat'', JNum 0), (''exp'', JNum 0),
                  (''iss'', JStr ''app1''), (''aud'', JStr ''https://api.civic.com/sip/''),
                  (''sub'', JStr ''app1''),
                  (''data'', JObj [(''method'', JStr ''POST''),
                                   (''path'', JStr ''scopeRequest/authCode'')])]) @
        ''.sig'' @ ''.'' @ ''00'' @ stable_stringify (JObj [(''authToken'', JStr ''abc'')]))"
  using makeAuthorizationHeader_format [of stub_lib stub_readings stub_client
      "''scopeRequest/authCode''" "''POST''" "JObj [(''authToken'', JStr ''abc'')]"]
  by (simp add: stub_lib_def stub_readings_def stub_client_def)

subsection \<open>What the payload unwrapper returns\<close>

text \<open>
  C7. For an envelope whose token verifies and parses to a claims object,
  \<open>verifyAndDecrypt\<close> returns what \<open>basicCrypto.decrypt\<close> makes of the data claim
  under the application secret when \<open>encrypted\<close> is set, and the data claim itself
  otherwise; in the second case the log holds the verification and the parse only, no
  decryption.
\<close>

theorem verifyAndDecrypt_result:
  assumes "JWS_verifyJWT L (data payload) (ECDSA_public (cl_hexpub cl))
             (no_options\<lparr>alg := Some [''ES256''], gracePeriod := Some 60\<rparr>) = Inr True"
    and "JWS_parse L (data payload) = Inr decodedToken"
    and "payloadObj decodedToken = Some claims"
  shows "fst (verifyAndDecrypt L cl payload []) =
           (if encrypted payload
            then basicCrypto_decrypt L (map_of claims ''data'') (cl_appSecret cl)
            else Inr (map_of claims ''data''))
         \<and> snd (verifyAndDecrypt L cl payload []) =
             [VerifyJWT (data payload) (ECDSA_public (cl_hexpub cl))
                (no_options\<lparr>alg := Some [''ES256''], gracePeriod := Some 60\<rparr>),
              Parse (data payload)] @
             (if encrypted payload then [Decrypt (map_of claims ''data'') (cl_appSecret cl)] else [])"
  using assms
  by (simp add: verifyAndDecrypt_def verify_def decode_def payloadObj_data_def options_grace io_defs Let_def)

theorem verifyAndDecrypt_result_witness:
  "fst (verifyAndDecrypt stub_lib stub_client \<lparr>data = ''signed'', encrypted = True\<rparr> []) =
     Inr (Some (JStr ''clear''))
   \<and> fst (verifyAndDecrypt stub_lib stub_client \<lparr>data = ''signed'', encrypted = False\<rparr> []) =
     Inr (Some (JStr ''cipher''))
   \<and> snd (verifyAndDecrypt stub_lib stub_client \<lparr>data = ''signed'', encrypted = False\<rparr> []) =
     [VerifyJWT ''signed'' (ECDSA_public ''04'')
        (no_options\<lparr>alg := Some [''ES256''], gracePeriod := Some 60\<rparr>),
      Parse ''signed'']"
proof -
  let ?d = "\<lparr>headerObj = None, payloadObj = Some [(''data'', JStr ''cipher'')]\<rparr>"
  have v: "JWS_verifyJWT stub_lib (data \<lparr>data = ''signed'', encrypted = e\<rparr>)
             (ECDSA_public (cl_hexpub stub_client))
             (no_options\<lparr>alg := Some [''ES256''], gracePeriod := Some 60\<rparr>) = Inr True" for e
    by (simp add: stub_lib_def)
  have p: "JWS_parse stub_lib (data \<lparr>data = ''signed'', encrypted = e\<rparr>) = Inr ?d" for e
    by (simp add: stub_lib_def)
  have c: "payloadObj ?d = Some [(''data'', JStr ''cipher'')]" by simp
  from verifyAndDecrypt_result [OF v p c, of True] verifyAndDecrypt_result [OF v p c, of False]
  show ?thesis by (simp add: stub_lib_def stub_client_def)
qed

subsection \<open>The accepted algorithms\<close>

text \<open>
  C8. With the caller's options \<open>{alg: [HS256, ES384]}\<close> the list handed to
  \<open>JWS.verifyJWT\<close> is \<open>[ES256, ES384]\<close>: the merge replaces the first entry and
  keeps the second, so the accepted algorithms are not ES256 alone.
\<close>

theorem verify_alg_not_forced:
  "options (Some (no_options\<lparr>alg := Some [''HS256'', ''ES384'']\<rparr>)) =
     no_options\<lparr>alg := Some [''ES256'', ''ES384'']\<rparr>
   \<and> snd (verify L token pubhex (Some (no_options\<lparr>alg := Some [''HS256'', ''ES384'']\<rparr>)) []) =
     [VerifyJWT token (ECDSA_public pubhex) (no_options\<lparr>alg := Some [''ES256'', ''ES384'']\<rparr>)]"
  by (simp add: options_def merge_alg_def no_options_def ALGO_def verify_def io_defs)

subsection \<open>The extension tag does not depend on the order of the keys\<close>

text \<open>
  C9. \<open>createCivicExt\<close> is a function of the body and the secret, and two bodies
  that are structurally equal up to the order of their keys get the same tag.
\<close>

theorem createCivicExt_deterministic:
  "json_equiv b b' \<Longrightarrow> createCivicExt L b secret = createCivicExt L b' secret"
  by (simp add: createCivicExt_def stable_stringify_equiv)

theorem createCivicExt_deterministic_witness:
  "json_equiv (JObj [(''authToken'', JStr ''abc''), (''n'', JArr [JNum 1, JNull])])
              (JObj [(''n'', JArr [JNum 1, JNull]), (''authToken'', JStr ''abc'')])
   \<and> createCivicExt stub_lib (JObj [(''authToken'', JStr ''abc''), (''n'', JArr [JNum 1, JNull])]) ''00'' =
     createCivicExt stub_lib (JObj [(''n'', JArr [JNum 1, JNull]), (''authToken'', JStr ''abc'')]) ''00''"
proof -
  have e: "json_equiv (JObj [(''authToken'', JStr ''abc''), (''n'', JArr [JNum 1, JNull])])
              (JObj [(''n'', JArr [JNum 1, JNull]), (''authToken'', JStr ''abc'')])"
    by auto
  from createCivicExt_deterministic [OF e] e show ?thesis by simp
qed

subsection \<open>Validation and defaults of the configuration\<close>

text \<open>
  C10. With an undefined configuration, or one whose application id, secret or private
  key is missing or empty, \<open>newClient\<close> throws one of its three errors and returns
  no client. With all three present, a client that is returned has the environment
  \<open>prod\<close> when none was given and the content and accept types
  \<open>application/json\<close> when they were undefined; and a client is returned whenever
  the base URL is not overridden.
\<close>

theorem newClient_validation:
  "(cfg = None \<or> (\<exists>c. cfg = Some c \<and> (falsy (appId c) \<or> falsy (appSecret c) \<or> falsy (prvKey c)))
      \<longrightarrow> newClient cfg \<in> {Inl (Error ''Please supply your application ID.''),
                          Inl (Error ''Please supply your application secret.''),
                          Inl (Error ''Please supply your application private key.'')})
   \<and> (\<not> falsy (appId c) \<and> \<not> falsy (appSecret c) \<and> \<not> falsy (prvKey c) \<longrightarrow>
        (\<forall>cl. newClient (Some c) = Inr cl \<longrightarrow>
           (falsy (env c) \<longrightarrow> cl_env cl = ''prod'')
           \<and> (defaultContentType c = None \<longrightarrow> cl_defaultContentType cl = ''application/json'')
           \<and> (defaultAcceptType c = None \<longrightarrow> cl_defaultAcceptType cl = ''application/json''))
        \<and> (falsy (api c) \<longrightarrow> (\<exists>cl. newClient (Some c) = Inr cl)))"
proof (intro conjI impI allI)
  assume "cfg = None \<or> (\<exists>c. cfg = Some c \<and> (falsy (appId c) \<or> falsy (appSecret c) \<or> falsy (prvKey c)))"
  then show "newClient cfg \<in> {Inl (Error ''Please supply your application ID.''),
                          Inl (Error ''Please supply your application secret.''),
                          Inl (Error ''Please supply your application private key.'')}"
    using newClient_None newClient_invalid by auto
next
  fix cl
  assume ok: "\<not> falsy (appId c) \<and> \<not> falsy (appSecret c) \<and> \<not> falsy (prvKey c)"
    and r: "newClient (Some c) = Inr cl"
  from ok have v: "\<not> falsy (appId c)" "\<not> falsy (appSecret c)" "\<not> falsy (prvKey c)" by simp_all
  { assume "falsy (env c)"
    with r show "cl_env cl = ''prod''"
      unfolding newClient_valid [OF v] by (auto simp: Let_def split: option.splits) }
  { assume "defaultContentType c = None"
    with r show "cl_defaultContentType cl = ''application/json''"
      unfolding newClient_valid [OF v] by (auto simp: Let_def split: option.splits) }
  { assume "defaultAcceptType c = None"
    with r show "cl_defaultAcceptType cl = ''application/json''"
      unfolding newClient_valid [OF v] by (auto simp: Let_def split: option.splits) }
next
  assume ok: "\<not> falsy (appId c) \<and> \<not> falsy (appSecret c) \<and> \<not> falsy (prvKey c)"
    and a: "falsy (api c)"
  from ok have v: "\<not> falsy (appId c)" "\<not> falsy (appSecret c)" "\<not> falsy (prvKey c)" by simp_all
  from a have b: "(case api c of None \<Rightarrow> SIPHostedService_base_url
                      | Some a \<Rightarrow> if a = [] then SIPHostedService_base_url
                                  else if \<not> endsWith a (CHR ''/'') then a @ ''/'' else a) =
                  SIPHostedService_base_url"
    by (simp add: falsy_def split: option.splits)
  show "\<exists>cl. newClient (Some c) = Inr cl"
    unfolding newClient_valid [OF v] b Let_def exec_endpoint_default by simp
qed

theorem newClient_validation_witness:
  "newClient None = Inl (Error ''Please supply your application ID.'')
   \<and> falsy (appSecret (stub_config\<lparr>appSecret := Some []\<rparr>))
   \<and> newClient (Some (stub_config\<lparr>appSecret := Some []\<rparr>)) =
       Inl (Error ''Please supply your application secret.'')
   \<and> (\<exists>cl. newClient (Some stub_config) = Inr cl \<and> cl_env cl = ''prod''
          \<and> cl_defaultContentType cl = ''application/json''
          \<and> cl_defaultAcceptType cl = ''application/json'')"
proof -
  have a: "newClient None = Inl (Error ''Please supply your application ID.'')"
    by (simp add: newClient_def undefined_config_def falsy_def)
  have f: "falsy (appSecret (stub_config\<lparr>appSecret := Some []\<rparr>))"
    by (simp add: falsy_def)
  have b: "newClient (Some (stub_config\<lparr>appSecret := Some []\<rparr>)) =
       Inl (Error ''Please supply your application secret.'')"
    by (simp add: newClient_def stub_config_def falsy_def)
  have ok: "\<not> falsy (appId stub_config) \<and> \<not> falsy (appSecret stub_config) \<and> \<not> falsy (prvKey stub_config)"
    and dflt: "falsy (env stub_config)" "falsy (api stub_config)"
       "defaultContentType stub_config = None" "defaultAcceptType stub_config = None"
    by (simp_all add: stub_config_def falsy_def)
  from newClient_validation [of None stub_config] ok dflt
  have d: "\<exists>cl. newClient (Some stub_config) = Inr cl \<and> cl_env cl = ''prod''
          \<and> cl_defaultContentType cl = ''application/json''
          \<and> cl_defaultAcceptType cl = ''application/json''"
    by blast
  from a f b d show ?thesis by blast
qed

end
